theory Spec2Isabelle
  imports Complex_Main
begin

section \<open>Data model\<close>

text \<open>
  The exceptions that matter to the scoring scripts. \<open>TimeoutError\<close> is what the
  \<open>time_limit\<close> decorator raises, \<open>QueryError\<close> stands for any other \<open>Exception\<close> of the
  graph store, \<open>UnboundLocalError\<close> (with the variable's name) is what Python raises on a
  read of a local variable that no assignment has reached, and \<open>ZeroDivisionError\<close> is
  what \<open>/\<close> raises on a zero divisor.
\<close>

datatype error = TimeoutError | QueryError | UnboundLocalError string | ZeroDivisionError

text \<open>
  The dictionaries \<open>{"TP": 0, "FN": 0, "FP": 0, "TN": 0}\<close> of
  \<open>run_metrics_to_csv.py\<close>; Python's integers are unbounded.
\<close>

record counts =
  TP :: int
  FN :: int
  FP :: int
  TN :: int

definition zero_counts :: counts where
  "zero_counts = \<lparr>TP = 0, FN = 0, FP = 0, TN = 0\<rparr>"

text \<open>The dictionary \<open>compute_metrics\<close> of \<open>run_metrics_to_csv.py\<close> returns.\<close>

record metrics =
  support :: int
  accuracy :: real
  error_rate :: real
  precision :: real
  recall :: real
  f1_score :: real
  false_negative_rate :: real
  false_positive_rate :: real

section \<open>Metrics calculation\<close>

text \<open>
  Python's true division \<open>a / b\<close>. It raises on a zero divisor, where HOL's \<open>/\<close> returns
  0, so the raise is a branch of the model. The quotient is the exact one: the rounding
  of Python's floats is not modelled.
\<close>

definition truediv :: "real \<Rightarrow> real \<Rightarrow> error + real" where
  "truediv a b = (if b = 0 then Inl ZeroDivisionError else Inr (a / b))"

definition bind_result :: "error + 'a \<Rightarrow> ('a \<Rightarrow> error + 'b) \<Rightarrow> error + 'b" where
  "bind_result r f = (case r of Inl e \<Rightarrow> Inl e | Inr v \<Rightarrow> f v)"

text \<open>
  \<open>compute_metrics\<close> of \<open>run_metrics_to_csv.py\<close>. A conditional expression
  \<open>x / d if d else 0\<close> divides only when \<open>d\<close> is truthy, that is non-zero.
\<close>

definition compute_metrics :: "counts \<Rightarrow> error + metrics" where
  "compute_metrics c =
    (let support = TP c + FN c + FP c + TN c in
     bind_result (if support \<noteq> 0
                  then truediv (of_int (TP c + TN c)) (of_int support) else Inr 0)
     (\<lambda>accuracy.
     let error_rate = (if support \<noteq> 0 then 1 - accuracy else 0) in
     bind_result (if TP c + FP c \<noteq> 0
                  then truediv (of_int (TP c)) (of_int (TP c + FP c)) else Inr 0)
     (\<lambda>precision.
     bind_result (if TP c + FN c \<noteq> 0
                  then truediv (of_int (TP c)) (of_int (TP c + FN c)) else Inr 0)
     (\<lambda>recall.
     bind_result (if precision + recall \<noteq> 0
                  then truediv (2 * precision * recall) (precision + recall) else Inr 0)
     (\<lambda>f1_score.
     bind_result (if TP c + FN c \<noteq> 0
                  then truediv (of_int (FN c)) (of_int (TP c + FN c)) else Inr 0)
     (\<lambda>fnr.
     bind_result (if TP c + FP c \<noteq> 0
                  then truediv (of_int (FP c)) (of_int (TP c + FP c)) else Inr 0)
     (\<lambda>fpr.
     Inr \<lparr>support = support, accuracy = accuracy, error_rate = error_rate,
          precision = precision, recall = recall, f1_score = f1_score,
          false_negative_rate = fnr, false_positive_rate = fpr\<rparr>)))))))"

text \<open>
  The counts \<open>{"TP": 0, "FN": 0, "FP": 0}\<close> of \<open>run_metrics_to_csv_DeepSeek.py\<close> and the
  dictionary its \<open>compute_metrics\<close> returns.
\<close>

record ds_counts =
  ds_TP :: int
  ds_FN :: int
  ds_FP :: int

record ds_metrics =
  ds_precision :: real
  ds_recall :: real
  ds_f1_score :: real
  ds_out_TP :: int
  ds_out_FN :: int
  ds_out_FP :: int

definition ds_compute_metrics :: "ds_counts \<Rightarrow> error + ds_metrics" where
  "ds_compute_metrics c =
    (let tp = ds_TP c; fn = ds_FN c; fp = ds_FP c in
     bind_result (if tp + fp \<noteq> 0 then truediv (of_int tp) (of_int (tp + fp)) else Inr 0)
     (\<lambda>precision.
     bind_result (if tp + fn \<noteq> 0 then truediv (of_int tp) (of_int (tp + fn)) else Inr 0)
     (\<lambda>recall.
     bind_result (if precision + recall \<noteq> 0
                  then truediv (2 * precision * recall) (precision + recall) else Inr 0)
     (\<lambda>f1_score.
     Inr \<lparr>ds_precision = precision, ds_recall = recall, ds_f1_score = f1_score,
          ds_out_TP = tp, ds_out_FN = fn, ds_out_FP = fp\<rparr>))))"

section \<open>Count accumulation of \<open>run_metrics_to_csv.py\<close>\<close>

text \<open>
  One entry of \<open>type_counts\<close>:
  \<open>{"query_level": {...}, "item_level": {...}}\<close>.
\<close>

record bucket =
  query_level :: counts
  item_level :: counts

definition zero_bucket :: bucket where
  "zero_bucket = \<lparr>query_level = zero_counts, item_level = zero_counts\<rparr>"

text \<open>
  A data point of the results file, read with \<open>data_point.get\<close>: \<open>None\<close> is what
  \<open>get\<close> returns for a missing key (or a JSON \<open>null\<close>). For \<open>question_type\<close>,
  \<open>None\<close> is the missing key, for which \<open>get\<close> returns the default \<open>"unknown"\<close>.
\<close>

record data_point =
  sparql_response :: "string option"
  generated_sparql :: "string option"
  sparql :: "string option"
  question_type :: "string option"

text \<open>Python's truth value of \<open>None\<close> and of a string, and \<open>a or b\<close>.\<close>

definition truthy :: "string option \<Rightarrow> bool" where
  "truthy v = (case v of None \<Rightarrow> False | Some s \<Rightarrow> s \<noteq> [])"

definition py_or :: "string option \<Rightarrow> string option \<Rightarrow> string option" where
  "py_or a b = (if truthy a then a else b)"

definition candidate_query :: "data_point \<Rightarrow> string option" where
  "candidate_query d = py_or (sparql_response d) (generated_sparql d)"

definition qtype_of :: "data_point \<Rightarrow> string" where
  "qtype_of d = (case question_type d of None \<Rightarrow> ''unknown'' | Some q \<Rightarrow> q)"

text \<open>
  The local variables of \<open>calculate_counts\<close> that live across iterations of its loop.
  \<open>type_counts\<close> is a dictionary, which keeps its keys in insertion order: an
  association list with distinct keys. \<open>generated_results\<close> and \<open>sample_results\<close> are
  assigned inside the \<open>try\<close> block only; \<open>None\<close> is the variable not yet bound.
\<close>

record 'r pass_state =
  overall_query :: counts
  overall_item :: counts
  type_counts :: "(string \<times> bucket) list"
  generated_results :: "'r set option"
  sample_results :: "'r set option"

definition init_state :: "'r pass_state" where
  "init_state = \<lparr>overall_query = zero_counts, overall_item = zero_counts,
                  type_counts = [], generated_results = None, sample_results = None\<rparr>"

text \<open>
  \<open>if qtype not in type_counts: type_counts[qtype] = {...}\<close>: a new key goes to the end.
\<close>

definition init_bucket :: "string \<Rightarrow> (string \<times> bucket) list \<Rightarrow> (string \<times> bucket) list" where
  "init_bucket qtype tc = (if map_of tc qtype = None then tc @ [(qtype, zero_bucket)] else tc)"

text \<open>
  An in-place update \<open>type_counts[qtype][...][...] += n\<close>. The key is present wherever
  the source does this, since \<open>init_bucket\<close> has run before.
\<close>

fun modify_bucket ::
  "string \<Rightarrow> ('v \<Rightarrow> 'v) \<Rightarrow> (string \<times> 'v) list \<Rightarrow> (string \<times> 'v) list" where
  "modify_bucket q f [] = []"
| "modify_bucket q f ((k, b) # rest) =
     (if k = q then (k, f b) # rest else (k, b) # modify_bucket q f rest)"

text \<open>The query-level increments \<open>counts["TP"] += 1\<close> and \<open>counts["FN"] += 1\<close>.\<close>

definition incr_TP :: "counts \<Rightarrow> counts" where
  "incr_TP c = c\<lparr>TP := TP c + 1\<rparr>"

definition incr_FN :: "counts \<Rightarrow> counts" where
  "incr_FN c = c\<lparr>FN := FN c + 1\<rparr>"

definition query_TP :: "string \<Rightarrow> 'r pass_state \<Rightarrow> 'r pass_state" where
  "query_TP qtype st =
     st\<lparr>overall_query := incr_TP (overall_query st),
        type_counts := modify_bucket qtype
          (\<lambda>b. b\<lparr>query_level := incr_TP (query_level b)\<rparr>) (type_counts st)\<rparr>"

definition query_FN :: "string \<Rightarrow> 'r pass_state \<Rightarrow> 'r pass_state" where
  "query_FN qtype st =
     st\<lparr>overall_query := incr_FN (overall_query st),
        type_counts := modify_bucket qtype
          (\<lambda>b. b\<lparr>query_level := incr_FN (query_level b)\<rparr>) (type_counts st)\<rparr>"

text \<open>
  The item-level counts of one case (lines 127 to 129): \<open>(tp_items, fn_items, fp_items)\<close>.
\<close>

definition item_eval :: "'r set \<Rightarrow> 'r set \<Rightarrow> int \<times> int \<times> int" where
  "item_eval generated sample =
     (int (card (generated \<inter> sample)),
      int (card (sample - generated)),
      int (card (generated - sample)))"

text \<open>
  The item-level accumulation (lines 131 to 136): three \<open>+=\<close>, on \<open>TP\<close>, \<open>FN\<close> and
  \<open>FP\<close>. No statement of the source ever adds to \<open>TN\<close>.
\<close>

definition add_items :: "counts \<Rightarrow> int \<times> int \<times> int \<Rightarrow> counts" where
  "add_items c items =
     (case items of (tp_items, fn_items, fp_items) \<Rightarrow>
        c\<lparr>TP := TP c + tp_items, FN := FN c + fn_items, FP := FP c + fp_items\<rparr>)"

text \<open>
  The query executor \<open>graph.safe_query\<close> is an external collaborator: it takes the state
  of the graph store and a query and returns the rows or raises, and the store may change.
\<close>

type_synonym ('g, 'r) executor = "'g \<Rightarrow> string \<Rightarrow> (error + 'r list) \<times> 'g"

text \<open>
  The \<open>try\<close> block with its \<open>except Exception\<close> (lines 112 to 124). An exception of the
  first call leaves both variables as they were; an exception of the second call leaves
  \<open>generated_results\<close> assigned and \<open>sample_results\<close> as it was.
\<close>

definition try_block ::
  "('g, 'r) executor \<Rightarrow> string \<Rightarrow> string \<Rightarrow> string \<Rightarrow> 'g \<times> 'r pass_state \<Rightarrow> 'g \<times> 'r pass_state" where
  "try_block safe_query qtype response sample_query gs =
     (case gs of (g, st) \<Rightarrow>
       (case safe_query g response of
          (Inl e, g1) \<Rightarrow> (g1, query_FN qtype st)
        | (Inr rows, g1) \<Rightarrow>
            (let st1 = st\<lparr>generated_results := Some (set rows)\<rparr> in
             case safe_query g1 sample_query of
               (Inl e, g2) \<Rightarrow> (g2, query_FN qtype st1)
             | (Inr rows', g2) \<Rightarrow>
                 (let st2 = st1\<lparr>sample_results := Some (set rows')\<rparr> in
                  if set rows = set rows' then (g2, query_TP qtype st2)
                  else (g2, query_FN qtype st2)))))"

text \<open>
  The item-level evaluation (lines 126 to 136), which stands after the \<open>try\<close> statement,
  not inside it: it reads \<open>generated_results\<close> first, then \<open>sample_results\<close>, whatever
  they hold, and a read of an unbound one raises.
\<close>

definition item_block :: "string \<Rightarrow> 'r pass_state \<Rightarrow> error + 'r pass_state" where
  "item_block qtype st =
     (case generated_results st of
        None \<Rightarrow> Inl (UnboundLocalError ''generated_results'')
      | Some generated \<Rightarrow>
          (case sample_results st of
             None \<Rightarrow> Inl (UnboundLocalError ''sample_results'')
           | Some sample \<Rightarrow>
               (let items = item_eval generated sample in
                Inr (st\<lparr>overall_item := add_items (overall_item st) items,
                        type_counts := modify_bucket qtype
                          (\<lambda>b. b\<lparr>item_level := add_items (item_level b) items\<rparr>)
                          (type_counts st)\<rparr>))))"

text \<open>The body of the loop for one data point (lines 99 to 136).\<close>

definition process_point ::
  "('g, 'r) executor \<Rightarrow> 'g \<times> 'r pass_state \<Rightarrow> data_point \<Rightarrow> error + 'g \<times> 'r pass_state" where
  "process_point safe_query gs d =
     (case gs of (g, st) \<Rightarrow>
       (let qtype = qtype_of d;
            st0 = st\<lparr>type_counts := init_bucket qtype (type_counts st)\<rparr>
        in case (candidate_query d, sparql d) of
             (Some response, Some sample_query) \<Rightarrow>
               if response \<noteq> [] \<and> sample_query \<noteq> [] then
                 (case try_block safe_query qtype response sample_query (g, st0) of
                    (g', st1) \<Rightarrow>
                      (case item_block qtype st1 of
                         Inl e \<Rightarrow> Inl e
                       | Inr st2 \<Rightarrow> Inr (g', st2)))
               else Inr (g, st0)
           | _ \<Rightarrow> Inr (g, st0)))"

fun run_points ::
  "('g, 'r) executor \<Rightarrow> 'g \<times> 'r pass_state \<Rightarrow> data_point list \<Rightarrow> error + 'g \<times> 'r pass_state" where
  "run_points safe_query gs [] = Inr gs"
| "run_points safe_query gs (d # ds) =
     (case process_point safe_query gs d of
        Inl e \<Rightarrow> Inl e
      | Inr gs' \<Rightarrow> run_points safe_query gs' ds)"

text \<open>
  \<open>calculate_counts(results)\<close>, with the global \<open>graph\<close> as a parameter. It returns
  \<open>(overall_query, overall_item, type_counts)\<close>, or the exception that left the loop.
\<close>

definition calculate_counts ::
  "('g, 'r) executor \<Rightarrow> 'g \<Rightarrow> data_point list \<Rightarrow>
     error + counts \<times> counts \<times> (string \<times> bucket) list" where
  "calculate_counts safe_query g results =
     (case run_points safe_query (g, init_state) results of
        Inl e \<Rightarrow> Inl e
      | Inr (g', st) \<Rightarrow> Inr (overall_query st, overall_item st, type_counts st))"

text \<open>
  A graph store for the examples: a stateless one that answers three queries and times
  out on every other one.
\<close>

definition demo_graph :: "(unit, string) executor" where
  "demo_graph g q =
     (if q = ''SELECT gold'' then (Inr [''a'', ''b''], g)
      else if q = ''SELECT same'' then (Inr [''b'', ''a'', ''b''], g)
      else if q = ''SELECT near'' then (Inr [''a'', ''c''], g)
      else (Inl TimeoutError, g))"

definition point :: "string \<Rightarrow> string \<Rightarrow> string \<Rightarrow> data_point" where
  "point qtype response gold =
     \<lparr>sparql_response = Some response, generated_sparql = None,
      sparql = Some gold, question_type = Some qtype\<rparr>"

section \<open>Per-type analysis of \<open>main\<close> in \<open>run_metrics_to_csv.py\<close>\<close>

text \<open>The dictionary \<open>avg_item\<close> (lines 256 to 264).\<close>

record avg_counts =
  avg_TP :: real
  avg_FN :: real
  avg_FP :: real
  avg_TN :: real

definition average_item_counts :: "counts \<Rightarrow> counts \<Rightarrow> error + avg_counts" where
  "average_item_counts query_counts item_counts =
     (let valid_queries =
            TP query_counts + FN query_counts + FP query_counts + TN query_counts
      in if valid_queries \<noteq> 0 then
           bind_result (truediv (of_int (TP item_counts)) (of_int valid_queries)) (\<lambda>tp.
           bind_result (truediv (of_int (FN item_counts)) (of_int valid_queries)) (\<lambda>fn.
           bind_result (truediv (of_int (FP item_counts)) (of_int valid_queries)) (\<lambda>fp.
           bind_result (truediv (of_int (TN item_counts)) (of_int valid_queries)) (\<lambda>tn.
           Inr \<lparr>avg_TP = tp, avg_FN = fn, avg_FP = fp, avg_TN = tn\<rparr>))))
         else Inr \<lparr>avg_TP = 0, avg_FN = 0, avg_FP = 0, avg_TN = 0\<rparr>)"

text \<open>One value of the dictionary \<open>per_type_analysis\<close> (lines 265 to 271).\<close>

record analysis =
  query_level_counts :: counts
  query_level_metrics :: metrics
  item_level_counts :: counts
  item_level_metrics :: metrics
  average_item_counts_per_query :: avg_counts

definition analyse :: "bucket \<Rightarrow> error + analysis" where
  "analyse b =
     (let query_counts = query_level b; item_counts = item_level b in
      bind_result (compute_metrics query_counts) (\<lambda>query_metrics.
      bind_result (compute_metrics item_counts) (\<lambda>item_metrics.
      bind_result (average_item_counts query_counts item_counts) (\<lambda>avg_item.
      Inr \<lparr>query_level_counts = query_counts, query_level_metrics = query_metrics,
           item_level_counts = item_counts, item_level_metrics = item_metrics,
           average_item_counts_per_query = avg_item\<rparr>))))"

text \<open>
  The loop over \<open>type_counts.items()\<close> (lines 244 to 271): one entry per question type,
  in the order of \<open>type_counts\<close>.
\<close>

fun per_type_analysis :: "(string \<times> bucket) list \<Rightarrow> error + (string \<times> analysis) list" where
  "per_type_analysis [] = Inr []"
| "per_type_analysis ((qtype, b) # rest) =
     bind_result (analyse b) (\<lambda>a.
     bind_result (per_type_analysis rest) (\<lambda>as. Inr ((qtype, a) # as)))"

definition zero_metrics :: metrics where
  "zero_metrics = \<lparr>support = 0, accuracy = 0, error_rate = 0, precision = 0, recall = 0,
                   f1_score = 0, false_negative_rate = 0, false_positive_rate = 0\<rparr>"

definition zero_analysis :: analysis where
  "zero_analysis =
     \<lparr>query_level_counts = zero_counts, query_level_metrics = zero_metrics,
      item_level_counts = zero_counts, item_level_metrics = zero_metrics,
      average_item_counts_per_query = \<lparr>avg_TP = 0, avg_FN = 0, avg_FP = 0, avg_TN = 0\<rparr>\<rparr>"

section \<open>Item-level counts of \<open>run_metrics_to_csv_DeepSeek.py\<close>\<close>

text \<open>
  An element of an answer list: an answer string or, as \<open>deepseek.py\<close> asks the model
  to return for a yes/no question (\<open>[True]\<close> or \<open>[False]\<close>), a boolean. A string and
  a boolean are never equal in Python.
\<close>

datatype json_item = ItemStr string | ItemBool bool

text \<open>
  A value of the keys \<open>"answer"\<close> and \<open>"deepseek-answer"\<close>: a list of items or a
  bare boolean. \<open>None\<close> in the data point is the missing key.
\<close>

datatype json_answer = JList "json_item list" | JBool bool

record ds_point =
  ds_question_type :: "string option"
  answer :: "json_answer option"
  deepseek_answer :: "json_answer option"

definition ds_qtype_of :: "ds_point \<Rightarrow> string" where
  "ds_qtype_of d = (case ds_question_type d of None \<Rightarrow> ''unknown'' | Some q \<Rightarrow> q)"

text \<open>
  Lines 24 to 31: \<open>data_point.get("answer", [])\<close>, which becomes the empty set (after
  a warning) when it is not a list.
\<close>

definition correct_answers :: "ds_point \<Rightarrow> json_item set" where
  "correct_answers d =
     (case answer d of
        None \<Rightarrow> {}
      | Some (JList xs) \<Rightarrow> set xs
      | Some (JBool b) \<Rightarrow> {})"

text \<open>
  Lines 33 to 38: the pair \<open>(correct_answers, deepseek_answer)\<close> that is compared. The
  yes/no branch is taken when \<open>deepseek-answer\<close> is a \<open>bool\<close>.
\<close>

definition answer_sets :: "ds_point \<Rightarrow> json_item set \<times> json_item set" where
  "answer_sets d =
     (case deepseek_answer d of
        Some (JBool b) \<Rightarrow>
          (if ItemStr ''YES'' \<in> correct_answers d
           then {ItemStr ''yes''} else {ItemStr ''no''},
           if b then {ItemStr ''yes''} else {ItemStr ''no''})
      | Some (JList xs) \<Rightarrow> (correct_answers d, set xs)
      | None \<Rightarrow> (correct_answers d, {}))"

text \<open>Lines 51 to 53: \<open>(tp_items, fn_items, fp_items)\<close>.\<close>

definition ds_item_eval :: "'r set \<Rightarrow> 'r set \<Rightarrow> int \<times> int \<times> int" where
  "ds_item_eval correct deepseek =
     (int (card (correct \<inter> deepseek)),
      int (card (correct - deepseek)),
      int (card (deepseek - correct)))"

definition ds_zero_counts :: ds_counts where
  "ds_zero_counts = \<lparr>ds_TP = 0, ds_FN = 0, ds_FP = 0\<rparr>"

text \<open>Lines 56 to 62: the three \<open>+=\<close> on a counts dictionary.\<close>

definition ds_add_items :: "ds_counts \<Rightarrow> int \<times> int \<times> int \<Rightarrow> ds_counts" where
  "ds_add_items c items =
     (case items of (tp_items, fn_items, fp_items) \<Rightarrow>
        c\<lparr>ds_TP := ds_TP c + tp_items, ds_FN := ds_FN c + fn_items,
          ds_FP := ds_FP c + fp_items\<rparr>)"

definition ds_init_bucket ::
  "string \<Rightarrow> (string \<times> ds_counts) list \<Rightarrow> (string \<times> ds_counts) list" where
  "ds_init_bucket qtype tc =
     (if map_of tc qtype = None then tc @ [(qtype, ds_zero_counts)] else tc)"

text \<open>The case's own counts, and the body of the loop (lines 23 to 62).\<close>

definition ds_case_counts :: "ds_point \<Rightarrow> int \<times> int \<times> int" where
  "ds_case_counts d = (case answer_sets d of (correct, deepseek) \<Rightarrow> ds_item_eval correct deepseek)"

definition ds_process_point ::
  "ds_counts \<times> (string \<times> ds_counts) list \<Rightarrow> ds_point \<Rightarrow> ds_counts \<times> (string \<times> ds_counts) list" where
  "ds_process_point acc d =
     (case acc of (overall_counts, tc) \<Rightarrow>
        (let qtype = ds_qtype_of d;
             items = ds_case_counts d
         in (ds_add_items overall_counts items,
             modify_bucket qtype (\<lambda>c. ds_add_items c items) (ds_init_bucket qtype tc))))"

definition calculate_item_metrics ::
  "ds_point list \<Rightarrow> ds_counts \<times> (string \<times> ds_counts) list" where
  "calculate_item_metrics results = foldl ds_process_point (ds_zero_counts, []) results"

section \<open>Auxiliary notions for the statements\<close>

text \<open>
  The guarded quotient and the guarded harmonic mean that the closed form of
  \<open>compute_metrics\<close> is made of.
\<close>

definition ratio :: "int \<Rightarrow> int \<Rightarrow> real" where
  "ratio n d = (if d = 0 then 0 else real_of_int n / real_of_int d)"

definition harmonic :: "real \<Rightarrow> real \<Rightarrow> real" where
  "harmonic p r = (if p + r = 0 then 0 else 2 * p * r / (p + r))"

text \<open>
  The query-level invariant: no false positive and no true negative, in the overall
  counts and in every bucket.
\<close>

definition query_ok :: "counts \<Rightarrow> bool" where
  "query_ok c = (FP c = 0 \<and> TN c = 0)"

definition buckets_ok :: "(string \<times> bucket) list \<Rightarrow> bool" where
  "buckets_ok tc = (\<forall>(q, b) \<in> set tc. query_ok (query_level b))"

definition state_ok :: "'r pass_state \<Rightarrow> bool" where
  "state_ok st = (query_ok (overall_query st) \<and> buckets_ok (type_counts st))"

text \<open>
  The negation of the test \<open>if sparql_response and sample_query\<close> (line 111): the
  candidate query or the gold query is absent or the empty string.
\<close>

definition missing_query :: "data_point \<Rightarrow> bool" where
  "missing_query d = (\<not> truthy (candidate_query d) \<or> \<not> truthy (sparql d))"

text \<open>A category's bucket is absent or still all zero.\<close>

definition bucket_unused :: "(string \<times> bucket) list \<Rightarrow> string \<Rightarrow> bool" where
  "bucket_unused tc q = (map_of tc q = None \<or> map_of tc q = Some zero_bucket)"

text \<open>
  The test \<open>"YES" in correct_answers\<close> (line 36) in terms of the data point: the gold
  answer is a list that contains the string \<open>"YES"\<close>.
\<close>

definition gold_says_yes :: "ds_point \<Rightarrow> bool" where
  "gold_says_yes d =
     (case answer d of Some (JList xs) \<Rightarrow> ItemStr ''YES'' \<in> set xs | _ \<Rightarrow> False)"

section \<open>The metrics calculator\<close>

lemma guarded_div_int:
  "(if (d::int) \<noteq> 0 then truediv a (of_int d) else Inr 0) =
     Inr (if d = 0 then 0 else a / of_int d)"
  by (simp add: truediv_def)

lemma guarded_div_real:
  "(if (d::real) \<noteq> 0 then truediv a d else Inr 0) = Inr (if d = 0 then 0 else a / d)"
  by (simp add: truediv_def)

lemma bind_result_Inr: "bind_result (Inr v) f = f v"
  by (simp add: bind_result_def)

lemma compute_metrics_closed:
  "compute_metrics c = Inr
     \<lparr>support = TP c + FN c + FP c + TN c,
      accuracy = ratio (TP c + TN c) (TP c + FN c + FP c + TN c),
      error_rate = (if TP c + FN c + FP c + TN c \<noteq> 0
                    then 1 - ratio (TP c + TN c) (TP c + FN c + FP c + TN c) else 0),
      precision = ratio (TP c) (TP c + FP c),
      recall = ratio (TP c) (TP c + FN c),
      f1_score = harmonic (ratio (TP c) (TP c + FP c)) (ratio (TP c) (TP c + FN c)),
      false_negative_rate = ratio (FN c) (TP c + FN c),
      false_positive_rate = ratio (FP c) (TP c + FP c)\<rparr>"
  by (simp only: compute_metrics_def Let_def guarded_div_int guarded_div_real
        bind_result_Inr ratio_def harmonic_def)

lemma ds_compute_metrics_closed:
  "ds_compute_metrics c = Inr
     \<lparr>ds_precision = ratio (ds_TP c) (ds_TP c + ds_FP c),
      ds_recall = ratio (ds_TP c) (ds_TP c + ds_FN c),
      ds_f1_score = harmonic (ratio (ds_TP c) (ds_TP c + ds_FP c))
                             (ratio (ds_TP c) (ds_TP c + ds_FN c)),
      ds_out_TP = ds_TP c, ds_out_FN = ds_FN c, ds_out_FP = ds_FP c\<rparr>"
  by (simp only: ds_compute_metrics_def Let_def guarded_div_int guarded_div_real
        bind_result_Inr ratio_def harmonic_def)

lemma compute_metrics_example:
  "compute_metrics \<lparr>TP = 2, FN = 1, FP = 2, TN = 0\<rparr> =
     Inr \<lparr>support = 5, accuracy = 2 / 5, error_rate = 3 / 5, precision = 1 / 2,
          recall = 2 / 3, f1_score = 4 / 7, false_negative_rate = 1 / 3,
          false_positive_rate = 1 / 2\<rparr>"
  by (simp add: compute_metrics_closed ratio_def harmonic_def)

lemma ds_compute_metrics_example:
  "ds_compute_metrics \<lparr>ds_TP = 0, ds_FN = 0, ds_FP = 3\<rparr> =
     Inr \<lparr>ds_precision = 0, ds_recall = 0, ds_f1_score = 0,
          ds_out_TP = 0, ds_out_FN = 0, ds_out_FP = 3\<rparr>"
  by (simp add: ds_compute_metrics_closed ratio_def harmonic_def)

text \<open>
  C3. For all counts (non-negative or not), \<open>compute_metrics\<close> returns and does not
  raise: \<open>support = TP+FN+FP+TN\<close>, \<open>accuracy = (TP+TN)/support\<close>,
  \<open>error_rate = 1 - accuracy\<close>, \<open>precision = TP/(TP+FP)\<close>, \<open>recall = TP/(TP+FN)\<close>,
  \<open>f1 = 2*precision*recall/(precision+recall)\<close>, \<open>fn_rate = FN/(TP+FN)\<close>,
  \<open>fp_rate = FP/(TP+FP)\<close>, and a metric whose denominator is 0 is exactly 0. The
  same holds for the three metrics of the DeepSeek script, which also passes the counts
  through. Division is the exact one; a raise would be the value \<open>Inl\<close>.
\<close>

theorem compute_metrics_formulas:
  "(\<exists>m. compute_metrics c = Inr m
      \<and> support m = TP c + FN c + FP c + TN c
      \<and> accuracy m = (if support m = 0 then 0
                       else real_of_int (TP c + TN c) / real_of_int (support m))
      \<and> error_rate m = (if support m = 0 then 0 else 1 - accuracy m)
      \<and> precision m = (if TP c + FP c = 0 then 0
                        else real_of_int (TP c) / real_of_int (TP c + FP c))
      \<and> recall m = (if TP c + FN c = 0 then 0
                     else real_of_int (TP c) / real_of_int (TP c + FN c))
      \<and> f1_score m = (if precision m + recall m = 0 then 0
                       else 2 * precision m * recall m / (precision m + recall m))
      \<and> false_negative_rate m = (if TP c + FN c = 0 then 0
                                  else real_of_int (FN c) / real_of_int (TP c + FN c))
      \<and> false_positive_rate m = (if TP c + FP c = 0 then 0
                                  else real_of_int (FP c) / real_of_int (TP c + FP c)))
   \<and> (\<exists>m. ds_compute_metrics d = Inr m
      \<and> ds_precision m = (if ds_TP d + ds_FP d = 0 then 0
                           else real_of_int (ds_TP d) / real_of_int (ds_TP d + ds_FP d))
      \<and> ds_recall m = (if ds_TP d + ds_FN d = 0 then 0
                        else real_of_int (ds_TP d) / real_of_int (ds_TP d + ds_FN d))
      \<and> ds_f1_score m = (if ds_precision m + ds_recall m = 0 then 0
                          else 2 * ds_precision m * ds_recall m
                               / (ds_precision m + ds_recall m))
      \<and> ds_out_TP m = ds_TP d \<and> ds_out_FN m = ds_FN d \<and> ds_out_FP m = ds_FP d)"
  by (simp only: compute_metrics_closed ds_compute_metrics_closed ratio_def harmonic_def
        sum.inject simp_thms ex_simps metrics.simps ds_metrics.simps) simp

theorem compute_metrics_formulas_witness:
  "(\<exists>m. compute_metrics \<lparr>TP = 2, FN = 1, FP = 2, TN = 0\<rparr> = Inr m
      \<and> support m = 5 \<and> accuracy m = 2 / 5 \<and> error_rate m = 3 / 5
      \<and> precision m = 1 / 2 \<and> recall m = 2 / 3 \<and> f1_score m = 4 / 7
      \<and> false_negative_rate m = 1 / 3 \<and> false_positive_rate m = 1 / 2)
   \<and> (\<exists>m. ds_compute_metrics \<lparr>ds_TP = 0, ds_FN = 0, ds_FP = 3\<rparr> = Inr m
      \<and> ds_precision m = 0 \<and> ds_recall m = 0 \<and> ds_f1_score m = 0
      \<and> ds_out_TP m = 0 \<and> ds_out_FN m = 0 \<and> ds_out_FP m = 3)"
  using compute_metrics_formulas
    [of "\<lparr>TP = 2, FN = 1, FP = 2, TN = 0\<rparr>" "\<lparr>ds_TP = 0, ds_FN = 0, ds_FP = 3\<rparr>"]
  unfolding compute_metrics_example ds_compute_metrics_example
  apply (elim conjE exE)
  apply (simp only: sum.inject)
  apply hypsubst
  apply (simp only: metrics.simps counts.simps ds_metrics.simps ds_counts.simps)
  apply simp
  done

lemma ratio_bounds:
  assumes "0 \<le> n" "n \<le> d"
  shows "0 \<le> ratio n d \<and> ratio n d \<le> 1"
  using assms by (simp add: ratio_def)

lemma harmonic_bounds:
  assumes "0 \<le> p" "p \<le> 1" "0 \<le> r" "r \<le> 1"
  shows "0 \<le> harmonic p r \<and> harmonic p r \<le> 1"
proof (cases "p + r = 0")
  case True
  then show ?thesis by (simp add: harmonic_def)
next
  case False
  with assms have pos: "0 < p + r" by linarith
  have "p * r \<le> p * 1" using assms by (intro mult_left_mono) auto
  moreover have "p * r \<le> 1 * r" using assms by (intro mult_right_mono) auto
  ultimately have le: "2 * p * r \<le> p + r" by linarith
  have nn: "0 \<le> 2 * p * r" using assms by simp
  from pos le nn show ?thesis by (simp add: harmonic_def False)
qed

text \<open>
  C9. For non-negative counts every derived metric (accuracy, error rate, precision,
  recall, F1, false-negative rate, false-positive rate) lies in the closed interval from
  0 to 1, in both scripts.
\<close>

theorem metrics_in_unit_interval:
  assumes "0 \<le> TP c" "0 \<le> FN c" "0 \<le> FP c" "0 \<le> TN c"
    and "0 \<le> ds_TP d" "0 \<le> ds_FN d" "0 \<le> ds_FP d"
  shows "(\<exists>m. compute_metrics c = Inr m
      \<and> 0 \<le> accuracy m \<and> accuracy m \<le> 1
      \<and> 0 \<le> error_rate m \<and> error_rate m \<le> 1
      \<and> 0 \<le> precision m \<and> precision m \<le> 1
      \<and> 0 \<le> recall m \<and> recall m \<le> 1
      \<and> 0 \<le> f1_score m \<and> f1_score m \<le> 1
      \<and> 0 \<le> false_negative_rate m \<and> false_negative_rate m \<le> 1
      \<and> 0 \<le> false_positive_rate m \<and> false_positive_rate m \<le> 1)
   \<and> (\<exists>m. ds_compute_metrics d = Inr m
      \<and> 0 \<le> ds_precision m \<and> ds_precision m \<le> 1
      \<and> 0 \<le> ds_recall m \<and> ds_recall m \<le> 1
      \<and> 0 \<le> ds_f1_score m \<and> ds_f1_score m \<le> 1)"
proof -
  have acc: "0 \<le> ratio (TP c + TN c) (TP c + FN c + FP c + TN c)
           \<and> ratio (TP c + TN c) (TP c + FN c + FP c + TN c) \<le> 1"
    using assms by (intro ratio_bounds) auto
  have p: "0 \<le> ratio (TP c) (TP c + FP c) \<and> ratio (TP c) (TP c + FP c) \<le> 1"
    using assms by (intro ratio_bounds) auto
  have r: "0 \<le> ratio (TP c) (TP c + FN c) \<and> ratio (TP c) (TP c + FN c) \<le> 1"
    using assms by (intro ratio_bounds) auto
  have fnr: "0 \<le> ratio (FN c) (TP c + FN c) \<and> ratio (FN c) (TP c + FN c) \<le> 1"
    using assms by (intro ratio_bounds) auto
  have fpr: "0 \<le> ratio (FP c) (TP c + FP c) \<and> ratio (FP c) (TP c + FP c) \<le> 1"
    using assms by (intro ratio_bounds) auto
  have f1: "0 \<le> harmonic (ratio (TP c) (TP c + FP c)) (ratio (TP c) (TP c + FN c))
          \<and> harmonic (ratio (TP c) (TP c + FP c)) (ratio (TP c) (TP c + FN c)) \<le> 1"
    using p r by (intro harmonic_bounds) auto
  have dp: "0 \<le> ratio (ds_TP d) (ds_TP d + ds_FP d)
          \<and> ratio (ds_TP d) (ds_TP d + ds_FP d) \<le> 1"
    using assms by (intro ratio_bounds) auto
  have dr: "0 \<le> ratio (ds_TP d) (ds_TP d + ds_FN d)
          \<and> ratio (ds_TP d) (ds_TP d + ds_FN d) \<le> 1"
    using assms by (intro ratio_bounds) auto
  have df1: "0 \<le> harmonic (ratio (ds_TP d) (ds_TP d + ds_FP d))
                           (ratio (ds_TP d) (ds_TP d + ds_FN d))
           \<and> harmonic (ratio (ds_TP d) (ds_TP d + ds_FP d))
                      (ratio (ds_TP d) (ds_TP d + ds_FN d)) \<le> 1"
    using dp dr by (intro harmonic_bounds) auto
  have main: "\<exists>m. compute_metrics c = Inr m
      \<and> 0 \<le> accuracy m \<and> accuracy m \<le> 1
      \<and> 0 \<le> error_rate m \<and> error_rate m \<le> 1
      \<and> 0 \<le> precision m \<and> precision m \<le> 1
      \<and> 0 \<le> recall m \<and> recall m \<le> 1
      \<and> 0 \<le> f1_score m \<and> f1_score m \<le> 1
      \<and> 0 \<le> false_negative_rate m \<and> false_negative_rate m \<le> 1
      \<and> 0 \<le> false_positive_rate m \<and> false_positive_rate m \<le> 1"
    using acc p r fnr fpr f1 by (simp add: compute_metrics_closed)
  have ds: "\<exists>m. ds_compute_metrics d = Inr m
      \<and> 0 \<le> ds_precision m \<and> ds_precision m \<le> 1
      \<and> 0 \<le> ds_recall m \<and> ds_recall m \<le> 1
      \<and> 0 \<le> ds_f1_score m \<and> ds_f1_score m \<le> 1"
    using dp dr df1 by (simp add: ds_compute_metrics_closed)
  from main ds show ?thesis by (rule conjI)
qed

theorem metrics_in_unit_interval_witness:
  "(\<exists>m. compute_metrics \<lparr>TP = 2, FN = 1, FP = 2, TN = 0\<rparr> = Inr m
      \<and> 0 \<le> accuracy m \<and> accuracy m \<le> 1
      \<and> 0 \<le> error_rate m \<and> error_rate m \<le> 1
      \<and> 0 \<le> precision m \<and> precision m \<le> 1
      \<and> 0 \<le> recall m \<and> recall m \<le> 1
      \<and> 0 \<le> f1_score m \<and> f1_score m \<le> 1
      \<and> 0 \<le> false_negative_rate m \<and> false_negative_rate m \<le> 1
      \<and> 0 \<le> false_positive_rate m \<and> false_positive_rate m \<le> 1)
   \<and> (\<exists>m. ds_compute_metrics \<lparr>ds_TP = 0, ds_FN = 0, ds_FP = 3\<rparr> = Inr m
      \<and> 0 \<le> ds_precision m \<and> ds_precision m \<le> 1
      \<and> 0 \<le> ds_recall m \<and> ds_recall m \<le> 1
      \<and> 0 \<le> ds_f1_score m \<and> ds_f1_score m \<le> 1)"
  by (rule metrics_in_unit_interval) simp_all

section \<open>The comparator and the accumulator\<close>

lemma card_inter_diff: "finite B \<Longrightarrow> card (A \<inter> B) + card (B - A) = card B"
proof -
  assume fin: "finite B"
  have "card ((A \<inter> B) \<union> (B - A)) = card (A \<inter> B) + card (B - A)"
    using fin by (intro card_Un_disjoint) auto
  moreover have "(A \<inter> B) \<union> (B - A) = B" by auto
  ultimately show ?thesis by simp
qed

lemma item_eval_example:
  "item_eval {''a'', ''b'', ''d''} {''a'', ''b'', ''c''} = (2, 1, 1)"
  by code_simp

lemma ds_item_eval_example:
  "ds_item_eval {''a'', ''b'', ''c''} {''a'', ''b'', ''d''} = (2, 1, 1)"
  by code_simp

text \<open>
  C5. For finite sets \<open>gold\<close> and \<open>candidate\<close>, the item-level counts
  \<open>tp = |gold \<inter> candidate|\<close>, \<open>fn = |gold - candidate|\<close>, \<open>fp = |candidate - gold|\<close> of
  both scripts satisfy \<open>tp + fn = |gold|\<close> and \<open>tp + fp = |candidate|\<close>. (In
  \<open>item_eval\<close> the generated, that is candidate, set is the first argument.)
\<close>

theorem item_counts_partition:
  assumes "finite gold" and "finite candidate"
  shows "(case item_eval candidate gold of (tp, fn, fp) \<Rightarrow>
            tp + fn = int (card gold) \<and> tp + fp = int (card candidate))
       \<and> (case ds_item_eval gold candidate of (tp, fn, fp) \<Rightarrow>
            tp + fn = int (card gold) \<and> tp + fp = int (card candidate))"
proof -
  have g: "card (candidate \<inter> gold) + card (gold - candidate) = card gold"
    using assms(1) by (rule card_inter_diff)
  have c: "card (gold \<inter> candidate) + card (candidate - gold) = card candidate"
    using assms(2) by (rule card_inter_diff)
  have sym: "candidate \<inter> gold = gold \<inter> candidate" by (rule Int_commute)
  have g': "int (card (candidate \<inter> gold)) + int (card (gold - candidate)) = int (card gold)"
    using g by linarith
  have c': "int (card (gold \<inter> candidate)) + int (card (candidate - gold))
            = int (card candidate)"
    using c by linarith
  show ?thesis
    using g' c' by (simp add: item_eval_def ds_item_eval_def sym)
qed

theorem item_counts_partition_witness:
  "finite {''a'', ''b'', ''c''} \<and> finite {''a'', ''b'', ''d''}
   \<and> item_eval {''a'', ''b'', ''d''} {''a'', ''b'', ''c''} = (2, 1, 1)
   \<and> ds_item_eval {''a'', ''b'', ''c''} {''a'', ''b'', ''d''} = (2, 1, 1)
   \<and> int (card {''a'', ''b'', ''c''}) = 2 + 1
   \<and> int (card {''a'', ''b'', ''d''}) = 2 + 1"
proof -
  have f1: "finite {''a'', ''b'', ''c''}" and f2: "finite {''a'', ''b'', ''d''}" by simp_all
  from item_counts_partition [OF f1 f2] f1 f2 show ?thesis
    unfolding item_eval_example ds_item_eval_example by simp
qed

text \<open>
  C6. Accumulation is commutative and associative. Folding the counts \<open>a\<close> then \<open>b\<close> of
  two cases into the zero counts, or into any running total \<open>t\<close>, gives the same totals
  as folding \<open>b\<close> then \<open>a\<close>; folding \<open>a\<close> then \<open>b\<close> is folding their field-wise sum; the
  two query-level increments commute. The same holds for the three-field counts of the
  DeepSeek script. The source adds to \<open>TP\<close>, \<open>FN\<close> and \<open>FP\<close>; it has no statement that
  adds to \<open>TN\<close>, which stays as it is.
\<close>

theorem accumulation_commutes:
  "add_items (add_items zero_counts a) b = add_items (add_items zero_counts b) a
   \<and> add_items (add_items t a) b = add_items (add_items t b) a
   \<and> add_items (add_items t (a1, a2, a3)) (b1, b2, b3)
       = add_items t (a1 + b1, a2 + b2, a3 + b3)
   \<and> incr_TP (incr_FN t) = incr_FN (incr_TP t)
   \<and> ds_add_items (ds_add_items ds_zero_counts x) y
       = ds_add_items (ds_add_items ds_zero_counts y) x
   \<and> ds_add_items (ds_add_items u x) y = ds_add_items (ds_add_items u y) x
   \<and> ds_add_items (ds_add_items u (a1, a2, a3)) (b1, b2, b3)
       = ds_add_items u (a1 + b1, a2 + b2, a3 + b3)"
  by (simp add: add_items_def ds_add_items_def incr_TP_def incr_FN_def split: prod.splits)

theorem accumulation_commutes_witness:
  "add_items (add_items zero_counts (2, 1, 1)) (0, 3, 4) = \<lparr>TP = 2, FN = 4, FP = 5, TN = 0\<rparr>
   \<and> add_items (add_items zero_counts (0, 3, 4)) (2, 1, 1) = \<lparr>TP = 2, FN = 4, FP = 5, TN = 0\<rparr>"
  using accumulation_commutes [of "(2, 1, 1)" "(0, 3, 4)"]
  by (simp add: add_items_def zero_counts_def)

section \<open>The query-level invariant of the accumulation pass\<close>

lemma buckets_ok_modify:
  assumes "buckets_ok tc" and "\<And>b. query_ok (query_level b) \<Longrightarrow> query_ok (query_level (f b))"
  shows "buckets_ok (modify_bucket q f tc)"
  using assms(1) by (induction tc) (auto simp: buckets_ok_def assms(2) split: if_splits)

lemma buckets_ok_init: "buckets_ok tc \<Longrightarrow> buckets_ok (init_bucket q tc)"
  by (auto simp: buckets_ok_def init_bucket_def zero_bucket_def zero_counts_def query_ok_def)

lemma state_ok_query_TP: "state_ok st \<Longrightarrow> state_ok (query_TP q st)"
  by (auto simp: state_ok_def query_TP_def incr_TP_def query_ok_def intro!: buckets_ok_modify)

lemma state_ok_query_FN: "state_ok st \<Longrightarrow> state_ok (query_FN q st)"
  by (auto simp: state_ok_def query_FN_def incr_FN_def query_ok_def intro!: buckets_ok_modify)

lemma state_ok_try_block:
  assumes "state_ok st" and "try_block sq q r s (g, st) = (g', st')"
  shows "state_ok st'"
proof -
  have upd: "\<And>x y. state_ok (st\<lparr>generated_results := x\<rparr>)"
    "\<And>x y. state_ok (st\<lparr>generated_results := x, sample_results := y\<rparr>)"
    using assms(1) by (simp_all add: state_ok_def)
  show ?thesis
    using assms(2) upd assms(1)
    by (auto simp: try_block_def Let_def state_ok_query_TP state_ok_query_FN
          split: prod.splits sum.splits if_splits)
qed

lemma state_ok_item_block:
  assumes "state_ok st" and "item_block q st = Inr st'"
  shows "state_ok st'"
  using assms
  by (auto simp: item_block_def Let_def state_ok_def split: option.splits
        intro!: buckets_ok_modify)

lemma state_ok_process_point:
  assumes "state_ok st" and "process_point sq (g, st) d = Inr (g', st')"
  shows "state_ok st'"
proof -
  let ?st0 = "st\<lparr>type_counts := init_bucket (qtype_of d) (type_counts st)\<rparr>"
  have ok0: "state_ok ?st0"
    using assms(1) by (simp add: state_ok_def buckets_ok_init)
  show ?thesis
    using assms(2) ok0
    by (auto simp: process_point_def Let_def split: prod.splits option.splits if_splits sum.splits
          dest: state_ok_try_block state_ok_item_block)
qed

lemma state_ok_run_points:
  assumes "state_ok st" and "run_points sq (g, st) ds = Inr (g', st')"
  shows "state_ok st'"
  using assms
proof (induction ds arbitrary: g st)
  case Nil
  then show ?case by simp
next
  case (Cons d ds)
  from Cons.prems(2) obtain g1 st1 where
    step: "process_point sq (g, st) d = Inr (g1, st1)" and
    rest: "run_points sq (g1, st1) ds = Inr (g', st')"
    by (auto split: sum.splits)
  from Cons.prems(1) step have "state_ok st1" by (rule state_ok_process_point)
  then show ?case using rest by (rule Cons.IH)
qed

lemma state_ok_init: "state_ok init_state"
  by (simp add: state_ok_def init_state_def buckets_ok_def query_ok_def zero_counts_def)

text \<open>
  C4. Whatever the dataset and the query executor, when the accumulation pass returns,
  the query-level \<open>FP\<close> and \<open>TN\<close> counts are 0 in the overall counts and in every
  category bucket: the pass only ever adds to the query-level \<open>TP\<close> and \<open>FN\<close>.
\<close>

theorem query_level_fp_tn_zero:
  assumes "calculate_counts safe_query g results = Inr (oq, oi, tc)"
  shows "FP oq = 0 \<and> TN oq = 0
       \<and> (\<forall>(q, b) \<in> set tc. FP (query_level b) = 0 \<and> TN (query_level b) = 0)"
proof -
  from assms obtain g' st where
    run: "run_points safe_query (g, init_state) results = Inr (g', st)" and
    out: "oq = overall_query st" "tc = type_counts st"
    by (auto simp: calculate_counts_def split: sum.splits)
  from state_ok_init run have "state_ok st" by (rule state_ok_run_points)
  then show ?thesis
    by (simp add: out state_ok_def buckets_ok_def query_ok_def)
qed

lemma demo_run:
  "calculate_counts demo_graph ()
     [point ''t1'' ''SELECT same'' ''SELECT gold'', point ''t2'' ''SELECT near'' ''SELECT gold'',
      point ''t1'' ''SELECT gold'' ''SELECT slow''] =
   Inr (\<lparr>TP = 1, FN = 2, FP = 0, TN = 0\<rparr>, \<lparr>TP = 5, FN = 1, FP = 1, TN = 0\<rparr>,
        [(''t1'', \<lparr>query_level = \<lparr>TP = 1, FN = 1, FP = 0, TN = 0\<rparr>,
                   item_level = \<lparr>TP = 4, FN = 0, FP = 0, TN = 0\<rparr>\<rparr>),
         (''t2'', \<lparr>query_level = \<lparr>TP = 0, FN = 1, FP = 0, TN = 0\<rparr>,
                   item_level = \<lparr>TP = 1, FN = 1, FP = 1, TN = 0\<rparr>\<rparr>)])"
  by code_simp

theorem query_level_fp_tn_zero_witness:
  "calculate_counts demo_graph ()
     [point ''t1'' ''SELECT same'' ''SELECT gold'', point ''t2'' ''SELECT near'' ''SELECT gold'',
      point ''t1'' ''SELECT gold'' ''SELECT slow''] =
   Inr (\<lparr>TP = 1, FN = 2, FP = 0, TN = 0\<rparr>, \<lparr>TP = 5, FN = 1, FP = 1, TN = 0\<rparr>,
        [(''t1'', \<lparr>query_level = \<lparr>TP = 1, FN = 1, FP = 0, TN = 0\<rparr>,
                   item_level = \<lparr>TP = 4, FN = 0, FP = 0, TN = 0\<rparr>\<rparr>),
         (''t2'', \<lparr>query_level = \<lparr>TP = 0, FN = 1, FP = 0, TN = 0\<rparr>,
                   item_level = \<lparr>TP = 1, FN = 1, FP = 1, TN = 0\<rparr>\<rparr>)])
   \<and> FP \<lparr>TP = 1, FN = 2, FP = 0, TN = 0\<rparr> = 0 \<and> TN \<lparr>TP = 1, FN = 2, FP = 0, TN = 0\<rparr> = 0"
  using query_level_fp_tn_zero [OF demo_run] demo_run by simp

section \<open>Cases with a missing query\<close>

lemma map_of_modify_other:
  "q \<noteq> q' \<Longrightarrow> map_of (modify_bucket q' f tc) q = map_of tc q"
  by (induction tc) auto

lemma map_of_init_other:
  "q \<noteq> q' \<Longrightarrow> map_of (init_bucket q' tc) q = map_of tc q"
  by (auto simp: init_bucket_def map_add_def split: option.splits)

lemma map_of_init_same:
  "map_of (init_bucket q tc) q =
     Some (case map_of tc q of None \<Rightarrow> zero_bucket | Some b \<Rightarrow> b)"
  by (auto simp: init_bucket_def map_add_def split: option.splits)

lemma process_point_skip:
  assumes "missing_query d"
  shows "process_point safe_query (g, st) d =
           Inr (g, st\<lparr>type_counts := init_bucket (qtype_of d) (type_counts st)\<rparr>)"
  using assms
  by (auto simp: process_point_def missing_query_def truthy_def Let_def
        split: option.splits)

text \<open>
  C7, as the code has it. A case whose candidate query (\<open>sparql_response\<close> or, failing
  that, \<open>generated_sparql\<close>) or gold query is absent or empty is skipped: no query runs,
  no exception is raised and neither the query-level nor the item-level counts of any
  bucket change. The only effect is that the case's category bucket is created with
  zero counts when the category has not been seen before.
\<close>

theorem missing_query_skips_case:
  assumes "missing_query d"
  shows "process_point safe_query (g, st) d =
           Inr (g, st\<lparr>type_counts := init_bucket (qtype_of d) (type_counts st)\<rparr>)
       \<and> map_of (init_bucket (qtype_of d) (type_counts st)) (qtype_of d) =
           Some (case map_of (type_counts st) (qtype_of d) of
                   None \<Rightarrow> zero_bucket | Some b \<Rightarrow> b)
       \<and> (\<forall>q. q \<noteq> qtype_of d \<longrightarrow>
             map_of (init_bucket (qtype_of d) (type_counts st)) q = map_of (type_counts st) q)"
  using assms by (simp add: process_point_skip map_of_init_same map_of_init_other)

theorem missing_query_skips_case_witness:
  "missing_query \<lparr>sparql_response = None, generated_sparql = Some '''',
                  sparql = Some ''SELECT gold'', question_type = Some ''t1''\<rparr>
   \<and> process_point demo_graph ((), init_state)
        \<lparr>sparql_response = None, generated_sparql = Some '''',
         sparql = Some ''SELECT gold'', question_type = Some ''t1''\<rparr> =
       Inr ((), \<lparr>overall_query = \<lparr>TP = 0, FN = 0, FP = 0, TN = 0\<rparr>,
                 overall_item = \<lparr>TP = 0, FN = 0, FP = 0, TN = 0\<rparr>,
                 type_counts = [(''t1'', zero_bucket)],
                 generated_results = None, sample_results = None\<rparr>)"
proof -
  have m: "missing_query \<lparr>sparql_response = None, generated_sparql = Some '''',
                  sparql = Some ''SELECT gold'', question_type = Some ''t1''\<rparr>"
    by (simp add: missing_query_def candidate_query_def py_or_def truthy_def)
  from missing_query_skips_case [OF m, of demo_graph "()" init_state] m
  show ?thesis
    by (simp add: init_state_def init_bucket_def qtype_of_def zero_counts_def)
qed

text \<open>
  The claim C7 as stated fails: a dataset of one case with an empty candidate query
  leaves the query-level \<open>FN\<close> of the overall counts and of the bucket at 0.
\<close>

theorem missing_query_counterexample:
  "calculate_counts demo_graph ()
     [\<lparr>sparql_response = None, generated_sparql = Some '''',
       sparql = Some ''SELECT gold'', question_type = Some ''t1''\<rparr>] =
   Inr (\<lparr>TP = 0, FN = 0, FP = 0, TN = 0\<rparr>, \<lparr>TP = 0, FN = 0, FP = 0, TN = 0\<rparr>,
        [(''t1'', \<lparr>query_level = \<lparr>TP = 0, FN = 0, FP = 0, TN = 0\<rparr>,
                   item_level = \<lparr>TP = 0, FN = 0, FP = 0, TN = 0\<rparr>\<rparr>)])"
  by code_simp

section \<open>Execution failures\<close>

text \<open>
  C1. The code at a failing input. The first case runs (candidate \<open>{a, c}\<close>, gold
  \<open>{a, b}\<close>: item counts 1, 1, 1); the candidate query of the second case times out. The
  second case adds one query-level \<open>FN\<close>, and it also adds 1, 1, 1 to the item-level
  counts of its bucket and of the overall counts: the item-level statements stand after
  the \<open>try\<close> statement and read the sets that the first case left behind.
\<close>

theorem failed_case_adds_stale_item_counts:
  "calculate_counts demo_graph () [point ''t1'' ''SELECT near'' ''SELECT gold''] =
     Inr (\<lparr>TP = 0, FN = 1, FP = 0, TN = 0\<rparr>, \<lparr>TP = 1, FN = 1, FP = 1, TN = 0\<rparr>,
          [(''t1'', \<lparr>query_level = \<lparr>TP = 0, FN = 1, FP = 0, TN = 0\<rparr>,
                     item_level = \<lparr>TP = 1, FN = 1, FP = 1, TN = 0\<rparr>\<rparr>)])
   \<and> calculate_counts demo_graph ()
       [point ''t1'' ''SELECT near'' ''SELECT gold'',
        point ''t2'' ''SELECT slow'' ''SELECT gold''] =
     Inr (\<lparr>TP = 0, FN = 2, FP = 0, TN = 0\<rparr>, \<lparr>TP = 2, FN = 2, FP = 2, TN = 0\<rparr>,
          [(''t1'', \<lparr>query_level = \<lparr>TP = 0, FN = 1, FP = 0, TN = 0\<rparr>,
                     item_level = \<lparr>TP = 1, FN = 1, FP = 1, TN = 0\<rparr>\<rparr>),
           (''t2'', \<lparr>query_level = \<lparr>TP = 0, FN = 1, FP = 0, TN = 0\<rparr>,
                     item_level = \<lparr>TP = 1, FN = 1, FP = 1, TN = 0\<rparr>\<rparr>)])"
  by code_simp

text \<open>
  C2. The code at a failing input. The candidate query of the first case times out; the
  \<open>except\<close> clause counts the \<open>FN\<close>, and the item-level statement after it reads
  \<open>generated_results\<close>, which no assignment has reached: the pass ends with an
  \<open>UnboundLocalError\<close> and the second case is never scored.
\<close>

theorem failed_first_case_aborts_pass:
  "calculate_counts demo_graph ()
     [point ''t1'' ''SELECT slow'' ''SELECT gold'',
      point ''t1'' ''SELECT same'' ''SELECT gold''] =
   Inl (UnboundLocalError ''generated_results'')"
  by code_simp

section \<open>Categories whose cases are all skipped\<close>

lemma try_block_other:
  assumes "try_block sq qt r s (g, st) = (g', st')" and "q \<noteq> qt"
  shows "map_of (type_counts st') q = map_of (type_counts st) q"
  using assms
  by (auto simp: try_block_def Let_def query_TP_def query_FN_def map_of_modify_other
        split: prod.splits sum.splits if_splits)

lemma item_block_other:
  assumes "item_block qt st = Inr st'" and "q \<noteq> qt"
  shows "map_of (type_counts st') q = map_of (type_counts st) q"
  using assms
  by (auto simp: item_block_def Let_def map_of_modify_other split: option.splits)

lemma process_point_other:
  assumes "process_point sq (g, st) d = Inr (g', st')" and "q \<noteq> qtype_of d"
  shows "map_of (type_counts st') q = map_of (type_counts st) q"
proof (cases "missing_query d")
  case True
  with assms show ?thesis by (auto simp: process_point_skip map_of_init_other)
next
  case False
  let ?st0 = "st\<lparr>type_counts := init_bucket (qtype_of d) (type_counts st)\<rparr>"
  from False assms(1) obtain r s g1 st1 where
    tb: "try_block sq (qtype_of d) r s (g, ?st0) = (g1, st1)" and
    ib: "item_block (qtype_of d) st1 = Inr st'"
    by (auto simp: process_point_def missing_query_def truthy_def Let_def
          split: option.splits prod.splits sum.splits if_splits)
  have "map_of (type_counts st') q = map_of (type_counts st1) q"
    using ib assms(2) by (rule item_block_other)
  also have "\<dots> = map_of (type_counts ?st0) q"
    using tb assms(2) by (rule try_block_other)
  also have "\<dots> = map_of (type_counts st) q"
    using assms(2) by (simp add: map_of_init_other)
  finally show ?thesis .
qed

lemma process_point_unused:
  assumes "process_point sq (g, st) d = Inr (g', st')"
    and "qtype_of d = q \<longrightarrow> missing_query d"
    and "bucket_unused (type_counts st) q"
  shows "bucket_unused (type_counts st') q
       \<and> (qtype_of d = q \<longrightarrow> map_of (type_counts st') q = Some zero_bucket)"
proof (cases "qtype_of d = q")
  case True
  with assms(2) have "missing_query d" by simp
  with assms(1) have "type_counts st' = init_bucket q (type_counts st)"
    by (auto simp: process_point_skip True)
  with assms(3) show ?thesis
    by (auto simp: bucket_unused_def map_of_init_same)
next
  case False
  then have "q \<noteq> qtype_of d" by auto
  with assms(1) have "map_of (type_counts st') q = map_of (type_counts st) q"
    by (rule process_point_other)
  with assms(3) False show ?thesis by (simp add: bucket_unused_def)
qed

lemma run_points_unused:
  assumes "run_points sq (g, st) ds = Inr (g', st')"
    and "\<forall>d\<in>set ds. qtype_of d = q \<longrightarrow> missing_query d"
    and "bucket_unused (type_counts st) q"
  shows "bucket_unused (type_counts st') q
       \<and> (map_of (type_counts st) q = Some zero_bucket \<or> (\<exists>d\<in>set ds. qtype_of d = q)
            \<longrightarrow> map_of (type_counts st') q = Some zero_bucket)"
  using assms
proof (induction ds arbitrary: g st)
  case Nil
  then show ?case by simp
next
  case (Cons d ds)
  from Cons.prems(1) obtain g1 st1 where
    step: "process_point sq (g, st) d = Inr (g1, st1)" and
    rest: "run_points sq (g1, st1) ds = Inr (g', st')"
    by (auto split: sum.splits)
  from Cons.prems(2) have hd: "qtype_of d = q \<longrightarrow> missing_query d"
    and tl: "\<forall>d\<in>set ds. qtype_of d = q \<longrightarrow> missing_query d" by simp_all
  from process_point_unused [OF step hd Cons.prems(3)]
  have un1: "bucket_unused (type_counts st1) q"
    and new: "qtype_of d = q \<longrightarrow> map_of (type_counts st1) q = Some zero_bucket" by simp_all
  have keep: "map_of (type_counts st) q = Some zero_bucket
              \<longrightarrow> map_of (type_counts st1) q = Some zero_bucket"
  proof (cases "qtype_of d = q")
    case True
    with new show ?thesis by simp
  next
    case False
    then have "q \<noteq> qtype_of d" by auto
    with step have "map_of (type_counts st1) q = map_of (type_counts st) q"
      by (rule process_point_other)
    then show ?thesis by simp
  qed
  from Cons.IH [OF rest tl un1]
  have ih1: "bucket_unused (type_counts st') q"
    and ih2: "map_of (type_counts st1) q = Some zero_bucket \<or> (\<exists>d\<in>set ds. qtype_of d = q)
            \<longrightarrow> map_of (type_counts st') q = Some zero_bucket" by simp_all
  from ih1 ih2 new keep show ?case by auto
qed

lemma average_item_counts_total: "\<exists>a. average_item_counts qc ic = Inr a"
  by (simp add: average_item_counts_def Let_def truediv_def bind_result_Inr)

lemma analyse_total: "\<exists>a. analyse b = Inr a"
proof -
  obtain v where "average_item_counts (query_level b) (item_level b) = Inr v"
    using average_item_counts_total by blast
  then show ?thesis
    by (simp add: analyse_def Let_def compute_metrics_closed bind_result_Inr)
qed

lemma analyse_zero: "analyse zero_bucket = Inr zero_analysis"
  by (simp add: analyse_def Let_def compute_metrics_closed bind_result_Inr
        average_item_counts_def zero_bucket_def zero_counts_def zero_analysis_def
        zero_metrics_def ratio_def harmonic_def)

lemma per_type_analysis_total: "\<exists>pta. per_type_analysis tc = Inr pta"
proof (induction tc)
  case Nil
  then show ?case by simp
next
  case (Cons kb tc)
  obtain k b where kb: "kb = (k, b)" by (cases kb)
  obtain a where a: "analyse b = Inr a" using analyse_total by blast
  from Cons.IH obtain pta where "per_type_analysis tc = Inr pta" by blast
  then show ?case by (simp add: kb a bind_result_Inr)
qed

lemma per_type_analysis_zero:
  assumes "map_of tc q = Some zero_bucket"
  shows "\<exists>pta. per_type_analysis tc = Inr pta \<and> map_of pta q = Some zero_analysis"
  using assms
proof (induction tc)
  case Nil
  then show ?case by simp
next
  case (Cons kb tc)
  obtain k b where kb: "kb = (k, b)" by (cases kb)
  show ?case
  proof (cases "k = q")
    case True
    with Cons.prems kb have "b = zero_bucket" by simp
    moreover obtain pta where "per_type_analysis tc = Inr pta"
      using per_type_analysis_total by blast
    ultimately show ?thesis by (simp add: kb True analyse_zero bind_result_Inr)
  next
    case False
    with Cons.prems kb have "map_of tc q = Some zero_bucket" by simp
    from Cons.IH [OF this] obtain pta where
      "per_type_analysis tc = Inr pta" "map_of pta q = Some zero_analysis" by blast
    moreover obtain a where "analyse b = Inr a" using analyse_total by blast
    ultimately show ?thesis using False by (simp add: kb bind_result_Inr)
  qed
qed

text \<open>
  C10. The category bucket is created, with zero counts, before the case is tested for
  missing queries. Hence, when the pass returns and every case of a category \<open>q\<close> that
  occurs in the dataset has a missing query, \<open>type_counts\<close> holds the all-zero bucket
  for \<open>q\<close>, and the per-type analysis of \<open>main\<close> returns and reports \<open>q\<close> with zero
  counts, all metrics 0 and zero averages.
\<close>

theorem skipped_category_reported_with_zeros:
  assumes "calculate_counts safe_query g results = Inr (oq, oi, tc)"
    and "\<exists>d\<in>set results. qtype_of d = q"
    and "\<forall>d\<in>set results. qtype_of d = q \<longrightarrow> missing_query d"
  shows "map_of tc q = Some zero_bucket
       \<and> (\<exists>pta. per_type_analysis tc = Inr pta \<and> map_of pta q = Some zero_analysis)"
proof -
  from assms(1) obtain g' st where
    run: "run_points safe_query (g, init_state) results = Inr (g', st)" and
    out: "tc = type_counts st"
    by (auto simp: calculate_counts_def split: sum.splits)
  have "bucket_unused (type_counts (init_state :: 'b pass_state)) q"
    by (simp add: bucket_unused_def init_state_def)
  from run_points_unused [OF run assms(3) this] assms(2)
  have z: "map_of tc q = Some zero_bucket" by (simp add: out)
  from z per_type_analysis_zero [OF z] show ?thesis by simp
qed

lemma demo_skipped_run:
  "calculate_counts demo_graph ()
     [point ''t1'' ''SELECT same'' ''SELECT gold'', point ''t2'' [] ''SELECT gold'',
      point ''t2'' ''SELECT near'' []] =
   Inr (\<lparr>TP = 1, FN = 0, FP = 0, TN = 0\<rparr>, \<lparr>TP = 2, FN = 0, FP = 0, TN = 0\<rparr>,
        [(''t1'', \<lparr>query_level = \<lparr>TP = 1, FN = 0, FP = 0, TN = 0\<rparr>,
                   item_level = \<lparr>TP = 2, FN = 0, FP = 0, TN = 0\<rparr>\<rparr>),
         (''t2'', zero_bucket)])"
  by code_simp

theorem skipped_category_reported_with_zeros_witness:
  "calculate_counts demo_graph ()
     [point ''t1'' ''SELECT same'' ''SELECT gold'', point ''t2'' [] ''SELECT gold'',
      point ''t2'' ''SELECT near'' []] =
   Inr (\<lparr>TP = 1, FN = 0, FP = 0, TN = 0\<rparr>, \<lparr>TP = 2, FN = 0, FP = 0, TN = 0\<rparr>,
        [(''t1'', \<lparr>query_level = \<lparr>TP = 1, FN = 0, FP = 0, TN = 0\<rparr>,
                   item_level = \<lparr>TP = 2, FN = 0, FP = 0, TN = 0\<rparr>\<rparr>),
         (''t2'', zero_bucket)])
   \<and> (\<exists>pta. per_type_analysis
        [(''t1'', \<lparr>query_level = \<lparr>TP = 1, FN = 0, FP = 0, TN = 0\<rparr>,
                   item_level = \<lparr>TP = 2, FN = 0, FP = 0, TN = 0\<rparr>\<rparr>),
         (''t2'', zero_bucket)] = Inr pta \<and> map_of pta ''t2'' = Some zero_analysis)"
proof -
  have ex: "\<exists>d\<in>set [point ''t1'' ''SELECT same'' ''SELECT gold'', point ''t2'' [] ''SELECT gold'',
      point ''t2'' ''SELECT near'' []]. qtype_of d = ''t2''"
    by (simp add: qtype_of_def point_def)
  have all: "\<forall>d\<in>set [point ''t1'' ''SELECT same'' ''SELECT gold'',
      point ''t2'' [] ''SELECT gold'', point ''t2'' ''SELECT near'' []].
      qtype_of d = ''t2'' \<longrightarrow> missing_query d"
    by (simp add: qtype_of_def point_def missing_query_def candidate_query_def py_or_def
          truthy_def)
  from skipped_category_reported_with_zeros [OF demo_skipped_run ex all] demo_skipped_run
  show ?thesis by simp
qed

section \<open>Yes/no cases of the DeepSeek script\<close>

lemma yes_in_correct_answers: "(ItemStr ''YES'' \<in> correct_answers d) = gold_says_yes d"
  by (simp add: correct_answers_def gold_says_yes_def split: option.splits json_answer.splits)

lemma singleton_counts:
  "ds_item_eval {x} {y} = (if x = y then (1, 0, 0) else (0, 1, 1))"
  by (simp add: ds_item_eval_def)

text \<open>
  What the yes/no branch (lines 34 to 36) computes. It is taken when \<open>deepseek-answer\<close>
  is a bare boolean: the candidate becomes \<open>{"yes"}\<close> or \<open>{"no"}\<close> by its value, the gold
  side \<open>{"yes"}\<close> when the gold answer is a list that contains the string \<open>"YES"\<close> and
  \<open>{"no"}\<close> otherwise. With the gold list \<open>["YES"]\<close> and the candidate \<open>False\<close> the
  counts are 0, 1, 1.
\<close>

lemma yes_no_branch:
  assumes "deepseek_answer d = Some (JBool b)"
  shows "answer_sets d = ({ItemStr (if gold_says_yes d then ''yes'' else ''no'')},
                          {ItemStr (if b then ''yes'' else ''no'')})
       \<and> ds_case_counts d = (if gold_says_yes d = b then (1, 0, 0) else (0, 1, 1))"
proof -
  have sets: "answer_sets d = ({ItemStr (if gold_says_yes d then ''yes'' else ''no'')},
                               {ItemStr (if b then ''yes'' else ''no'')})"
    using assms by (simp add: answer_sets_def yes_in_correct_answers)
  have cnt: "ds_case_counts d = (if gold_says_yes d = b then (1, 0, 0) else (0, 1, 1))"
    by (simp add: ds_case_counts_def sets singleton_counts)
  from sets cnt show ?thesis by (rule conjI)
qed

lemma yes_no_branch_example:
  "answer_sets \<lparr>ds_question_type = Some ''yesno'', answer = Some (JList [ItemStr ''YES'']),
                deepseek_answer = Some (JBool False)\<rparr> = ({ItemStr ''yes''}, {ItemStr ''no''})
   \<and> ds_case_counts \<lparr>ds_question_type = Some ''yesno'',
                answer = Some (JList [ItemStr ''YES'']),
                deepseek_answer = Some (JBool False)\<rparr> = (0, 1, 1)"
  using yes_no_branch
    [of "\<lparr>ds_question_type = Some ''yesno'', answer = Some (JList [ItemStr ''YES'']),
          deepseek_answer = Some (JBool False)\<rparr>" False]
  by (simp add: gold_says_yes_def)

text \<open>
  C8. The code at failing inputs. A gold answer that is the boolean \<open>True\<close> is not a
  list: the script prints that it is skipping the data point, replaces the gold answer by
  the empty set and scores the case all the same. In the yes/no branch the gold side then
  becomes \<open>{"no"}\<close>, whatever the gold boolean is: against the candidate \<open>False\<close> the
  counts are \<open>tp = 1\<close>, \<open>fn = 0\<close>, \<open>fp = 0\<close> (the claim says 0, 1, 1), and against the
  candidate \<open>True\<close> they are 0, 1, 1. A candidate that is the list \<open>[True]\<close>, the form
  \<open>deepseek.py\<close> asks for, does not reach the yes/no branch at all: neither side is
  normalized, and against the gold list \<open>["YES"]\<close> the counts are 0, 1, 1.
\<close>

theorem boolean_gold_scored_as_no:
  "answer_sets \<lparr>ds_question_type = Some ''yesno'', answer = Some (JBool True),
                deepseek_answer = Some (JBool False)\<rparr> = ({ItemStr ''no''}, {ItemStr ''no''})
   \<and> ds_case_counts \<lparr>ds_question_type = Some ''yesno'', answer = Some (JBool True),
                deepseek_answer = Some (JBool False)\<rparr> = (1, 0, 0)
   \<and> calculate_item_metrics
        [\<lparr>ds_question_type = Some ''yesno'', answer = Some (JBool True),
          deepseek_answer = Some (JBool False)\<rparr>] =
       (\<lparr>ds_TP = 1, ds_FN = 0, ds_FP = 0\<rparr>, [(''yesno'', \<lparr>ds_TP = 1, ds_FN = 0, ds_FP = 0\<rparr>)])
   \<and> ds_case_counts \<lparr>ds_question_type = Some ''yesno'', answer = Some (JBool True),
                deepseek_answer = Some (JBool True)\<rparr> = (0, 1, 1)
   \<and> answer_sets \<lparr>ds_question_type = Some ''yesno'', answer = Some (JList [ItemStr ''YES'']),
                deepseek_answer = Some (JList [ItemBool True])\<rparr> =
       ({ItemStr ''YES''}, {ItemBool True})
   \<and> ds_case_counts \<lparr>ds_question_type = Some ''yesno'',
                answer = Some (JList [ItemStr ''YES'']),
                deepseek_answer = Some (JList [ItemBool True])\<rparr> = (0, 1, 1)"
  by code_simp

end
